theory Spec2Isabelle
  imports Main
begin

section \<open>JavaScript values used by the gateway\<close>

text \<open>
  An optional string (\<open>string | undefined\<close>) is a \<open>string option\<close>, \<open>None\<close> being
  \<open>undefined\<close>. A thrown \<open>Error(message)\<close> is the left injection of a sum.
\<close>

datatype js_error = Error string

text \<open>\<open>!x\<close> on an optional string: true for \<open>undefined\<close> and for the empty string.\<close>

definition falsy :: "string option \<Rightarrow> bool" where
  "falsy x = (case x of None \<Rightarrow> True | Some s \<Rightarrow> s = [])"

text \<open>\<open>a ?? b\<close>: the right operand is taken only when the left one is \<open>undefined\<close>.\<close>

definition nullish :: "'a option \<Rightarrow> 'a option \<Rightarrow> 'a option" where
  "nullish a b = (case a of None \<Rightarrow> b | Some v \<Rightarrow> Some v)"

text \<open>\<open>s.startsWith(p)\<close> and \<open>s.substring(n)\<close>.\<close>

definition startsWith :: "string \<Rightarrow> string \<Rightarrow> bool" where
  "startsWith s p = (take (length p) s = p)"

definition substring :: "string \<Rightarrow> nat \<Rightarrow> string" where
  "substring s n = drop n s"

section \<open>Context carrier: src/context/requestContext.ts\<close>

record RequestContext =
  apiKey :: string
  environmentId :: string

text \<open>
  The value of \<open>requestContextStorage.getStore()\<close> at the point of a call is an
  explicit argument: \<open>None\<close> outside every \<open>run\<close>, \<open>Some context\<close> inside one.
\<close>

type_synonym store = "RequestContext option"

definition getRequestContext :: "store \<Rightarrow> js_error + RequestContext" where
  "getRequestContext st =
     (case st of
        None \<Rightarrow> Inl (Error ''Request context not available - authorization required'')
      | Some context \<Rightarrow> Inr context)"

text \<open>
  \<open>requestContextStorage.run(context, fn)\<close> calls \<open>fn\<close> with the store replaced by
  \<open>context\<close> and returns what \<open>fn\<close> returns; the caller's own store (the last argument)
  is not read and, being an argument, is what the caller sees again afterwards.
\<close>

definition runWithContext :: "RequestContext \<Rightarrow> (store \<Rightarrow> 'a) \<Rightarrow> store \<Rightarrow> 'a" where
  "runWithContext context fn st = fn (Some context)"

section \<open>Client factory: createMapiClient\<close>

record packageJson =
  name :: string
  version :: string

record ManagementClientConfig =
  cfg_apiKey :: string
  cfg_environmentId :: string
  cfg_headers :: "(string \<times> string) list"

text \<open>
  \<open>createManagementClient\<close> belongs to the management SDK; the client it returns is
  represented by the configuration it was built from.
\<close>

datatype ManagementClient = ManagementClient ManagementClientConfig

definition createManagementClient :: "ManagementClientConfig \<Rightarrow> ManagementClient" where
  "createManagementClient cfg = ManagementClient cfg"

definition sourceTrackingHeaderName :: string where
  "sourceTrackingHeaderName = ''X-KC-SOURCE''"

text \<open>
  Modelled from the spec: \<open>utils/throwError\<close> is not among the sources. By its name, its use
  as a statement before the non-null assertions of \<open>createMapiClient\<close>, and the spec's
  "fails with MissingCredential (fatal, reported to caller)", it throws an \<open>Error\<close> carrying
  the message it is given.
\<close>

definition throwError :: "string \<Rightarrow> js_error + 'a" where
  "throwError msg = Inl (Error msg)"

text \<open>
  \<open>process.env\<close> is a dictionary from variable names to strings, read at each call.
  The \<open>try\<close> block fails exactly when \<open>getRequestContext\<close> throws, and then the \<open>catch\<close>
  block assigns both variables; the order of the two presence checks is the source's.
\<close>

definition createMapiClient ::
  "packageJson \<Rightarrow> (string \<rightharpoonup> string) \<Rightarrow> store \<Rightarrow> string option \<Rightarrow> string option
     \<Rightarrow> js_error + ManagementClient" where
  "createMapiClient pkg env st environmentIdArg apiKeyArg =
     (let (finalApiKey, finalEnvironmentId) =
        (case getRequestContext st of
           Inr context \<Rightarrow>
             (nullish apiKeyArg (Some (apiKey context)),
              nullish environmentIdArg (Some (environmentId context)))
         | Inl _ \<Rightarrow>
             (nullish apiKeyArg (env ''KONTENT_API_KEY''),
              nullish environmentIdArg (env ''KONTENT_ENVIRONMENT_ID'')))
      in if falsy finalApiKey
           then throwError ''API key not provided (neither in context nor environment)''
         else if falsy finalEnvironmentId
           then throwError ''Environment ID not provided (neither in context nor environment)''
         else Inr (createManagementClient
           \<lparr>cfg_apiKey = the finalApiKey,
            cfg_environmentId = the finalEnvironmentId,
            cfg_headers = [(sourceTrackingHeaderName, name pkg @ '';'' @ version pkg)]\<rparr>))"

section \<open>Credential extractor: src/middleware/auth.ts\<close>

text \<open>
  The request carries its headers (a dictionary keyed by lower-case header names) and the
  two optional fields the middleware attaches.
\<close>

record AuthRequest =
  headers :: "string \<rightharpoonup> string"
  req_apiKey :: "string option"
  req_environmentId :: "string option"

datatype json_id = Null | IdNumber int | IdString string

record JsonRpcError =
  code :: int
  message :: string

record ErrorEnvelope =
  jsonrpc :: string
  error :: JsonRpcError
  id :: json_id

text \<open>
  What the middleware does with the request besides updating it: it either sends
  \<open>res.status(n).json(body)\<close> and returns, or calls \<open>next()\<close>.
\<close>

datatype outcome = Responded nat ErrorEnvelope | Next

definition authMiddleware :: "AuthRequest \<Rightarrow> AuthRequest \<times> outcome" where
  "authMiddleware req =
     (let authHeader = headers req ''authorization'' in
      if falsy authHeader \<or> \<not> startsWith (the authHeader) ''Bearer '' then
        (req, Responded 401
           \<lparr>jsonrpc = ''2.0'',
            error = \<lparr>code = - 32001, message = ''Unauthorized: Bearer token required''\<rparr>,
            id = Null\<rparr>)
      else
        let token = substring (the authHeader) 7 in
        if token = [] then
          (req, Responded 401
             \<lparr>jsonrpc = ''2.0'',
              error = \<lparr>code = - 32001, message = ''Unauthorized: Invalid Bearer token''\<rparr>,
              id = Null\<rparr>)
        else
          let req1 = req\<lparr>req_apiKey := Some token\<rparr>;
              environmentId = headers req1 ''x-environment-id''
          in if falsy environmentId then
               (req1, Responded 400
                  \<lparr>jsonrpc = ''2.0'',
                   error = \<lparr>code = - 32602,
                            message = ''Bad Request: X-Environment-ID header required''\<rparr>,
                   id = Null\<rparr>)
             else (req1\<lparr>req_environmentId := environmentId\<rparr>, Next))"

section \<open>Values named in the statements\<close>

text \<open>
  The body every rejection of the middleware sends: protocol version 2.0, an error object
  with the given code and message, and a null id.
\<close>

definition rejection :: "int \<Rightarrow> string \<Rightarrow> ErrorEnvelope" where
  "rejection c m = \<lparr>jsonrpc = ''2.0'', error = \<lparr>code = c, message = m\<rparr>, id = Null\<rparr>"

text \<open>
  The client the factory returns for a resolved key and environment: what
  \<open>createManagementClient\<close> builds from them and the source-tracking header.
\<close>

definition clientFor :: "packageJson \<Rightarrow> string \<Rightarrow> string \<Rightarrow> ManagementClient" where
  "clientFor pkg k e =
     createManagementClient
       \<lparr>cfg_apiKey = k, cfg_environmentId = e,
        cfg_headers = [(sourceTrackingHeaderName, name pkg @ '';'' @ version pkg)]\<rparr>"

section \<open>The context carrier\<close>

text \<open>
  Claim C8. A call of \<open>getRequestContext\<close> outside every \<open>runWithContext\<close> extent (the
  store is empty) throws the error "Request context not available - authorization
  required" instead of returning an identity; called as the operation of
  \<open>runWithContext identity\<close>, from any enclosing store, it returns that identity.
\<close>

theorem getRequestContext_outside_and_inside:
  "getRequestContext None =
     Inl (Error ''Request context not available - authorization required'')
   \<and> runWithContext identity getRequestContext outer = Inr identity"
  by (simp add: getRequestContext_def runWithContext_def)

text \<open>
  Nested extents. A lookup inside an inner \<open>runWithContext\<close> returns the inner identity,
  and a lookup made in the outer extent after the inner one has returned sees the outer
  identity again.
\<close>

theorem runWithContext_nested_shadows:
  "runWithContext a
     (\<lambda>st. (runWithContext b getRequestContext st, getRequestContext st)) outer =
   (Inr b, Inr a)"
  by (simp add: getRequestContext_def runWithContext_def)

section \<open>The credential extractor\<close>

lemma startsWith_Bearer: "startsWith h ''Bearer '' = (take 7 h = ''Bearer '')"
proof -
  have len: "length ''Bearer '' = 7" by simp
  show ?thesis unfolding startsWith_def len by (rule refl)
qed

lemma authMiddleware_absent:
  "headers req ''authorization'' = None \<Longrightarrow>
   authMiddleware req =
     (req, Responded 401 (rejection (- 32001) ''Unauthorized: Bearer token required''))"
  by (simp add: authMiddleware_def falsy_def rejection_def)

lemma authMiddleware_wrong_scheme:
  "headers req ''authorization'' = Some h \<Longrightarrow> take 7 h \<noteq> ''Bearer '' \<Longrightarrow>
   authMiddleware req =
     (req, Responded 401 (rejection (- 32001) ''Unauthorized: Bearer token required''))"
  by (simp add: authMiddleware_def startsWith_Bearer falsy_def rejection_def)

lemma authMiddleware_empty_token:
  "headers req ''authorization'' = Some h \<Longrightarrow> take 7 h = ''Bearer '' \<Longrightarrow> drop 7 h = [] \<Longrightarrow>
   authMiddleware req =
     (req, Responded 401 (rejection (- 32001) ''Unauthorized: Invalid Bearer token''))"
  by (auto simp add: authMiddleware_def startsWith_Bearer substring_def falsy_def rejection_def)

lemma authMiddleware_no_environment:
  "headers req ''authorization'' = Some h \<Longrightarrow> take 7 h = ''Bearer '' \<Longrightarrow> drop 7 h \<noteq> [] \<Longrightarrow>
   falsy (headers req ''x-environment-id'') \<Longrightarrow>
   authMiddleware req =
     (req\<lparr>req_apiKey := Some (drop 7 h)\<rparr>,
      Responded 400 (rejection (- 32602) ''Bad Request: X-Environment-ID header required''))"
  by (auto simp add: authMiddleware_def startsWith_Bearer substring_def falsy_def rejection_def Let_def)

lemma authMiddleware_next:
  "headers req ''authorization'' = Some h \<Longrightarrow> take 7 h = ''Bearer '' \<Longrightarrow> drop 7 h \<noteq> [] \<Longrightarrow>
   headers req ''x-environment-id'' = Some e \<Longrightarrow> e \<noteq> [] \<Longrightarrow>
   authMiddleware req =
     (req\<lparr>req_apiKey := Some (drop 7 h), req_environmentId := Some e\<rparr>, Next)"
  by (auto simp add: authMiddleware_def startsWith_Bearer substring_def falsy_def Let_def)

text \<open>
  Claim C3. The middleware answers without calling \<open>next()\<close> in exactly three situations:
  the Authorization header is absent or does not start with "Bearer " (status 401, code
  -32001, "Unauthorized: Bearer token required"); it is "Bearer " followed by nothing
  (status 401, code -32001, "Unauthorized: Invalid Bearer token"); the credential is
  accepted and the X-Environment-ID header is absent or empty (status 400, code -32602,
  "Bad Request: X-Environment-ID header required"). In every other situation it calls
  \<open>next()\<close>. The id of each rejection body is null.
\<close>

theorem authMiddleware_outcome:
  "snd (authMiddleware req) =
     (case headers req ''authorization'' of
        None \<Rightarrow>
          Responded 401 (rejection (- 32001) ''Unauthorized: Bearer token required'')
      | Some h \<Rightarrow>
          if take 7 h \<noteq> ''Bearer '' then
            Responded 401 (rejection (- 32001) ''Unauthorized: Bearer token required'')
          else if drop 7 h = [] then
            Responded 401 (rejection (- 32001) ''Unauthorized: Invalid Bearer token'')
          else if headers req ''x-environment-id'' = None
                  \<or> headers req ''x-environment-id'' = Some [] then
            Responded 400
              (rejection (- 32602) ''Bad Request: X-Environment-ID header required'')
          else Next)
   \<and> code (error (rejection c m)) = c \<and> message (error (rejection c m)) = m
   \<and> id (rejection c m) = Null"
proof -
  have fields: "code (error (rejection c m)) = c \<and> message (error (rejection c m)) = m
      \<and> id (rejection c m) = Null"
    by (simp add: rejection_def)
  have outcome: "snd (authMiddleware req) =
     (case headers req ''authorization'' of
        None \<Rightarrow>
          Responded 401 (rejection (- 32001) ''Unauthorized: Bearer token required'')
      | Some h \<Rightarrow>
          if take 7 h \<noteq> ''Bearer '' then
            Responded 401 (rejection (- 32001) ''Unauthorized: Bearer token required'')
          else if drop 7 h = [] then
            Responded 401 (rejection (- 32001) ''Unauthorized: Invalid Bearer token'')
          else if headers req ''x-environment-id'' = None
                  \<or> headers req ''x-environment-id'' = Some [] then
            Responded 400
              (rejection (- 32602) ''Bad Request: X-Environment-ID header required'')
          else Next)"
  proof (cases "headers req ''authorization''")
    case None
    then show ?thesis by (simp add: authMiddleware_absent)
  next
    case (Some h)
    show ?thesis
    proof (cases "take 7 h = ''Bearer ''")
      case False
      with Some show ?thesis by (simp add: authMiddleware_wrong_scheme)
    next
      case bearer: True
      show ?thesis
      proof (cases "drop 7 h = []")
        case True
        with Some bearer show ?thesis by (simp add: authMiddleware_empty_token)
      next
        case token: False
        show ?thesis
        proof (cases "headers req ''x-environment-id''")
          case None
          then have "falsy (headers req ''x-environment-id'')" by (simp add: falsy_def)
          from authMiddleware_no_environment [OF Some bearer token this] Some bearer token None
          show ?thesis by simp
        next
          case (Some e)
          note env = this
          show ?thesis
          proof (cases "e = []")
            case True
            with env have "falsy (headers req ''x-environment-id'')" by (simp add: falsy_def)
            from authMiddleware_no_environment [OF \<open>headers req ''authorization'' = Some h\<close> bearer token this]
              \<open>headers req ''authorization'' = Some h\<close> bearer token env True
            show ?thesis by simp
          next
            case False
            from authMiddleware_next [OF \<open>headers req ''authorization'' = Some h\<close> bearer token env False]
              \<open>headers req ''authorization'' = Some h\<close> bearer token env False
            show ?thesis by simp
          qed
        qed
      qed
    qed
  qed
  from outcome fields show ?thesis by (rule conjI)
qed

text \<open>
  Claim C5. A request whose Authorization header is "Bearer " followed by a non-empty
  credential and whose X-Environment-ID header is a non-empty namespace passes: \<open>next()\<close>
  is called and the request carries exactly that credential and that namespace, character
  for character, whatever they contain.
\<close>

theorem authMiddleware_attaches_exact_values:
  assumes "credential \<noteq> []" and "namespace \<noteq> []"
    and "headers req ''authorization'' = Some (''Bearer '' @ credential)"
    and "headers req ''x-environment-id'' = Some namespace"
  shows "authMiddleware req =
           (req\<lparr>req_apiKey := Some credential, req_environmentId := Some namespace\<rparr>, Next)"
proof -
  have "take 7 (''Bearer '' @ credential) = ''Bearer ''" by simp
  moreover have "drop 7 (''Bearer '' @ credential) = credential" by simp
  ultimately show ?thesis
    using authMiddleware_next [OF assms(3) _ _ assms(4) assms(2)] assms(1) by simp
qed

theorem authMiddleware_attaches_exact_values_witness:
  "authMiddleware
     \<lparr>headers = [''authorization'' \<mapsto> ''Bearer  k e y '', ''x-environment-id'' \<mapsto> '' env ''],
      req_apiKey = None, req_environmentId = None\<rparr> =
   (\<lparr>headers = [''authorization'' \<mapsto> ''Bearer  k e y '', ''x-environment-id'' \<mapsto> '' env ''],
     req_apiKey = Some '' k e y '', req_environmentId = Some '' env ''\<rparr>, Next)"
  using authMiddleware_attaches_exact_values
    [of "'' k e y ''" "'' env ''"
        "\<lparr>headers = [''authorization'' \<mapsto> ''Bearer  k e y '', ''x-environment-id'' \<mapsto> '' env ''],
          req_apiKey = None, req_environmentId = None\<rparr>"]
  by simp

lemma authMiddleware_cases:
  "authMiddleware req =
     (req, Responded 401 (rejection (- 32001) ''Unauthorized: Bearer token required''))
   \<or> authMiddleware req =
     (req, Responded 401 (rejection (- 32001) ''Unauthorized: Invalid Bearer token''))
   \<or> (\<exists>token. token \<noteq> [] \<and> headers req ''authorization'' = Some (''Bearer '' @ token)
        \<and> authMiddleware req =
            (req\<lparr>req_apiKey := Some token\<rparr>,
             Responded 400
               (rejection (- 32602) ''Bad Request: X-Environment-ID header required'')))
   \<or> (\<exists>token e. authMiddleware req =
            (req\<lparr>req_apiKey := Some token, req_environmentId := Some e\<rparr>, Next))"
proof (cases "headers req ''authorization''")
  case None
  then show ?thesis by (simp add: authMiddleware_absent)
next
  case (Some h)
  show ?thesis
  proof (cases "take 7 h = ''Bearer ''")
    case False
    with Some show ?thesis by (simp add: authMiddleware_wrong_scheme)
  next
    case bearer: True
    show ?thesis
    proof (cases "drop 7 h = []")
      case True
      with Some bearer show ?thesis by (simp add: authMiddleware_empty_token)
    next
      case token: False
      have "h = take 7 h @ drop 7 h" by simp
      with bearer have split: "h = ''Bearer '' @ drop 7 h" by simp
      show ?thesis
      proof (cases "falsy (headers req ''x-environment-id'')")
        case True
        from authMiddleware_no_environment [OF Some bearer token True] Some split token
        show ?thesis by metis
      next
        case False
        then obtain e where "headers req ''x-environment-id'' = Some e" and "e \<noteq> []"
          by (auto simp add: falsy_def split: option.splits)
        from authMiddleware_next [OF Some bearer token this]
        show ?thesis by blast
      qed
    qed
  qed
qed

text \<open>
  Claim C4, as the code has it. A request with an accepted Authorization header and no
  X-Environment-ID header is answered with status 400 after the token has been stored in
  the request, so its credential field is set.
\<close>

theorem authMiddleware_partial_identity_counterexample:
  "authMiddleware
     \<lparr>headers = [''authorization'' \<mapsto> ''Bearer abc''],
      req_apiKey = None, req_environmentId = None\<rparr> =
   (\<lparr>headers = [''authorization'' \<mapsto> ''Bearer abc''],
     req_apiKey = Some ''abc'', req_environmentId = None\<rparr>,
    Responded 400 (rejection (- 32602) ''Bad Request: X-Environment-ID header required''))
   \<and> req_apiKey (fst (authMiddleware
        \<lparr>headers = [''authorization'' \<mapsto> ''Bearer abc''],
         req_apiKey = None, req_environmentId = None\<rparr>)) \<noteq> None"
  by (simp add: authMiddleware_def startsWith_Bearer substring_def falsy_def rejection_def Let_def)

text \<open>
  Claim C4, amended. Whenever the middleware answers instead of calling \<open>next()\<close>, the
  namespace field and the headers of the request are as they were. On the two credential
  rejections (status 401) the whole request record is unchanged, so no field is
  attached. On the namespace rejection (status 400) the record differs from the original
  exactly in the credential field, which holds the non-empty token that followed
  "Bearer " in the Authorization header.
\<close>

theorem authMiddleware_rejected_record:
  assumes "snd (authMiddleware req) = Responded st body"
  shows "req_environmentId (fst (authMiddleware req)) = req_environmentId req
       \<and> headers (fst (authMiddleware req)) = headers req
       \<and> (if st = 401 then fst (authMiddleware req) = req
          else \<exists>token. token \<noteq> []
                 \<and> headers req ''authorization'' = Some (''Bearer '' @ token)
                 \<and> fst (authMiddleware req) = req\<lparr>req_apiKey := Some token\<rparr>)"
  using authMiddleware_cases [of req] assms by (elim disjE exE conjE) auto

theorem authMiddleware_rejected_record_witness:
  "snd (authMiddleware
      \<lparr>headers = [''authorization'' \<mapsto> ''Bearer abc''],
       req_apiKey = None, req_environmentId = None\<rparr>) =
     Responded 400 (rejection (- 32602) ''Bad Request: X-Environment-ID header required'')
   \<and> req_environmentId (fst (authMiddleware
      \<lparr>headers = [''authorization'' \<mapsto> ''Bearer abc''],
       req_apiKey = None, req_environmentId = None\<rparr>)) = None
   \<and> (\<exists>token. token \<noteq> []
        \<and> fst (authMiddleware
             \<lparr>headers = [''authorization'' \<mapsto> ''Bearer abc''],
              req_apiKey = None, req_environmentId = None\<rparr>) =
            \<lparr>headers = [''authorization'' \<mapsto> ''Bearer abc''],
             req_apiKey = Some token, req_environmentId = None\<rparr>)"
proof -
  have rejected: "snd (authMiddleware
      \<lparr>headers = [''authorization'' \<mapsto> ''Bearer abc''],
       req_apiKey = None, req_environmentId = None\<rparr>) =
     Responded 400 (rejection (- 32602) ''Bad Request: X-Environment-ID header required'')"
    by (simp add: authMiddleware_def startsWith_Bearer substring_def falsy_def rejection_def Let_def)
  from authMiddleware_rejected_record [OF rejected] rejected
  show ?thesis by auto
qed

text \<open>
  Claim C6, as the code has it. The header "Bearer   x  " (with an environment header)
  is accepted with the credential "  x  ", spaces included, not "x"; and the header
  "Bearer " followed by two spaces is accepted with the credential of two spaces rather
  than rejected as an empty credential.
\<close>

theorem authMiddleware_trim_counterexample:
  "req_apiKey (fst (authMiddleware
      \<lparr>headers = [''authorization'' \<mapsto> ''Bearer   x  '', ''x-environment-id'' \<mapsto> ''env''],
       req_apiKey = None, req_environmentId = None\<rparr>)) = Some ''  x  ''
   \<and> req_apiKey (fst (authMiddleware
      \<lparr>headers = [''authorization'' \<mapsto> ''Bearer   x  '', ''x-environment-id'' \<mapsto> ''env''],
       req_apiKey = None, req_environmentId = None\<rparr>)) \<noteq> Some ''x''
   \<and> authMiddleware
      \<lparr>headers = [''authorization'' \<mapsto> ''Bearer   '', ''x-environment-id'' \<mapsto> ''env''],
       req_apiKey = None, req_environmentId = None\<rparr> =
     (\<lparr>headers = [''authorization'' \<mapsto> ''Bearer   '', ''x-environment-id'' \<mapsto> ''env''],
       req_apiKey = Some ''  '', req_environmentId = Some ''env''\<rparr>, Next)"
  by (simp add: authMiddleware_def startsWith_Bearer substring_def falsy_def Let_def)

text \<open>
  Claim C6, amended. For every request whose Authorization header is "Bearer " followed
  by a remainder: when the remainder is empty the request is rejected with "Unauthorized:
  Invalid Bearer token" and left unchanged; otherwise the credential stored in the
  request is the remainder itself, with no character removed (a remainder of spaces is a
  credential like any other).
\<close>

theorem authMiddleware_token_is_remainder:
  assumes "headers req ''authorization'' = Some (''Bearer '' @ rest)"
  shows "if rest = []
         then authMiddleware req =
           (req, Responded 401 (rejection (- 32001) ''Unauthorized: Invalid Bearer token''))
         else req_apiKey (fst (authMiddleware req)) = Some rest"
proof (cases "rest = []")
  case True
  with authMiddleware_empty_token [OF assms] show ?thesis by simp
next
  case False
  have bearer: "take 7 (''Bearer '' @ rest) = ''Bearer ''" by simp
  have token: "drop 7 (''Bearer '' @ rest) \<noteq> []" using False by simp
  show ?thesis
  proof (cases "falsy (headers req ''x-environment-id'')")
    case True
    from authMiddleware_no_environment [OF assms bearer token True] False
    show ?thesis by simp
  next
    case nonempty: False
    then obtain e where "headers req ''x-environment-id'' = Some e" and "e \<noteq> []"
      by (auto simp add: falsy_def split: option.splits)
    from authMiddleware_next [OF assms bearer token this] False
    show ?thesis by simp
  qed
qed

theorem authMiddleware_token_is_remainder_witness:
  "req_apiKey (fst (authMiddleware
      \<lparr>headers = [''authorization'' \<mapsto> ''Bearer   x  '', ''x-environment-id'' \<mapsto> ''env''],
       req_apiKey = None, req_environmentId = None\<rparr>)) = Some ''  x  ''"
  using authMiddleware_token_is_remainder
    [of "\<lparr>headers = [''authorization'' \<mapsto> ''Bearer   x  '', ''x-environment-id'' \<mapsto> ''env''],
          req_apiKey = None, req_environmentId = None\<rparr>" "''  x  ''"]
  by simp

section \<open>The client factory\<close>

text \<open>Inside a bound extent the environment variables are not consulted.\<close>

lemma createMapiClient_bound:
  "createMapiClient pkg env (Some ctx) eo ko =
     (let k = (case ko of None \<Rightarrow> apiKey ctx | Some v \<Rightarrow> v);
          e = (case eo of None \<Rightarrow> environmentId ctx | Some v \<Rightarrow> v)
      in if k = [] then Inl (Error ''API key not provided (neither in context nor environment)'')
         else if e = []
           then Inl (Error ''Environment ID not provided (neither in context nor environment)'')
         else Inr (clientFor pkg k e))"
  by (simp add: createMapiClient_def getRequestContext_def nullish_def falsy_def
      throwError_def clientFor_def Let_def split: option.splits)

text \<open>Outside every extent each field is the override or else the environment variable.\<close>

lemma createMapiClient_unbound:
  "createMapiClient pkg env None eo ko =
     (let k = (case ko of None \<Rightarrow> env ''KONTENT_API_KEY'' | Some v \<Rightarrow> Some v);
          e = (case eo of None \<Rightarrow> env ''KONTENT_ENVIRONMENT_ID'' | Some v \<Rightarrow> Some v)
      in if k = None \<or> k = Some []
           then Inl (Error ''API key not provided (neither in context nor environment)'')
         else if e = None \<or> e = Some []
           then Inl (Error ''Environment ID not provided (neither in context nor environment)'')
         else Inr (clientFor pkg (the k) (the e)))"
  by (auto simp add: createMapiClient_def getRequestContext_def nullish_def falsy_def
      throwError_def clientFor_def Let_def split: option.splits)

text \<open>
  Claim C1. Called with no arguments: inside a bound extent whose identity has a
  non-empty credential and namespace (as every tenant identity has) the factory returns
  the client for exactly that pair, whatever the environment variables hold; outside
  every extent, with \<open>KONTENT_API_KEY\<close> and \<open>KONTENT_ENVIRONMENT_ID\<close> both set to non-empty
  values, it returns the client for exactly those two values; outside every extent with
  the API key absent (or empty) it throws the API-key error, whether or not the
  environment id is present, so the credential error comes first when both are missing;
  with the API key set and the environment id absent (or empty) it throws the
  environment-id error.
\<close>

theorem createMapiClient_no_arguments:
  "(apiKey ctx \<noteq> [] \<and> environmentId ctx \<noteq> [] \<longrightarrow>
      createMapiClient pkg env (Some ctx) None None =
        Inr (clientFor pkg (apiKey ctx) (environmentId ctx)))
   \<and> (env ''KONTENT_API_KEY'' = Some k \<and> k \<noteq> []
        \<and> env ''KONTENT_ENVIRONMENT_ID'' = Some e \<and> e \<noteq> [] \<longrightarrow>
      createMapiClient pkg env None None None = Inr (clientFor pkg k e))
   \<and> (env ''KONTENT_API_KEY'' = None \<or> env ''KONTENT_API_KEY'' = Some [] \<longrightarrow>
      createMapiClient pkg env None None None =
        Inl (Error ''API key not provided (neither in context nor environment)''))
   \<and> (env ''KONTENT_API_KEY'' = Some k \<and> k \<noteq> []
        \<and> (env ''KONTENT_ENVIRONMENT_ID'' = None \<or> env ''KONTENT_ENVIRONMENT_ID'' = Some []) \<longrightarrow>
      createMapiClient pkg env None None None =
        Inl (Error ''Environment ID not provided (neither in context nor environment)''))"
proof (intro conjI impI)
  assume "apiKey ctx \<noteq> [] \<and> environmentId ctx \<noteq> []"
  then show "createMapiClient pkg env (Some ctx) None None =
      Inr (clientFor pkg (apiKey ctx) (environmentId ctx))"
    by (simp add: createMapiClient_bound)
next
  assume "env ''KONTENT_API_KEY'' = Some k \<and> k \<noteq> []
      \<and> env ''KONTENT_ENVIRONMENT_ID'' = Some e \<and> e \<noteq> []"
  then show "createMapiClient pkg env None None None = Inr (clientFor pkg k e)"
    by (simp add: createMapiClient_unbound)
next
  assume "env ''KONTENT_API_KEY'' = None \<or> env ''KONTENT_API_KEY'' = Some []"
  then show "createMapiClient pkg env None None None =
      Inl (Error ''API key not provided (neither in context nor environment)'')"
    by (auto simp add: createMapiClient_unbound)
next
  assume "env ''KONTENT_API_KEY'' = Some k \<and> k \<noteq> []
      \<and> (env ''KONTENT_ENVIRONMENT_ID'' = None \<or> env ''KONTENT_ENVIRONMENT_ID'' = Some [])"
  then show "createMapiClient pkg env None None None =
      Inl (Error ''Environment ID not provided (neither in context nor environment)'')"
    by (auto simp add: createMapiClient_unbound)
qed

theorem createMapiClient_no_arguments_witness:
  "createMapiClient \<lparr>name = ''mcp-server'', version = ''1.0.0''\<rparr>
      [''KONTENT_API_KEY'' \<mapsto> ''envKey'', ''KONTENT_ENVIRONMENT_ID'' \<mapsto> ''envId'']
      (Some \<lparr>apiKey = ''x'', environmentId = ''y''\<rparr>) None None =
     Inr (clientFor \<lparr>name = ''mcp-server'', version = ''1.0.0''\<rparr> ''x'' ''y'')
   \<and> createMapiClient \<lparr>name = ''mcp-server'', version = ''1.0.0''\<rparr>
      [''KONTENT_API_KEY'' \<mapsto> ''envKey'', ''KONTENT_ENVIRONMENT_ID'' \<mapsto> ''envId'']
      None None None =
     Inr (clientFor \<lparr>name = ''mcp-server'', version = ''1.0.0''\<rparr> ''envKey'' ''envId'')
   \<and> createMapiClient \<lparr>name = ''mcp-server'', version = ''1.0.0''\<rparr> Map.empty None None None =
     Inl (Error ''API key not provided (neither in context nor environment)'')
   \<and> createMapiClient \<lparr>name = ''mcp-server'', version = ''1.0.0''\<rparr>
      [''KONTENT_API_KEY'' \<mapsto> ''envKey''] None None None =
     Inl (Error ''Environment ID not provided (neither in context nor environment)'')"
  using
    createMapiClient_no_arguments
      [of "\<lparr>apiKey = ''x'', environmentId = ''y''\<rparr>"
          "\<lparr>name = ''mcp-server'', version = ''1.0.0''\<rparr>"
          "[''KONTENT_API_KEY'' \<mapsto> ''envKey'', ''KONTENT_ENVIRONMENT_ID'' \<mapsto> ''envId'']"
          "''envKey''" "''envId''"]
    createMapiClient_no_arguments
      [of "\<lparr>apiKey = ''x'', environmentId = ''y''\<rparr>"
          "\<lparr>name = ''mcp-server'', version = ''1.0.0''\<rparr>"
          "Map.empty" "''envKey''" "''envId''"]
    createMapiClient_no_arguments
      [of "\<lparr>apiKey = ''x'', environmentId = ''y''\<rparr>"
          "\<lparr>name = ''mcp-server'', version = ''1.0.0''\<rparr>"
          "[''KONTENT_API_KEY'' \<mapsto> ''envKey'']" "''envKey''" "''envId''"]
  by simp

text \<open>
  Claim C7. A supplied (non-empty) override is the value the client is built with, for
  each field on its own. With both overrides the client is built from them whatever the
  bound identity and the environment variables are. With only the credential override,
  the namespace is the bound identity's inside an extent and \<open>KONTENT_ENVIRONMENT_ID\<close>
  outside; with only the namespace override, the credential is the bound identity's
  inside an extent and \<open>KONTENT_API_KEY\<close> outside. Moreover, for any override value
  whatever, the value the bound identity or the environment holds for the overridden
  field has no influence on the result.
\<close>

theorem createMapiClient_overrides:
  "(k \<noteq> [] \<and> e \<noteq> [] \<longrightarrow>
      createMapiClient pkg env st (Some e) (Some k) = Inr (clientFor pkg k e))
   \<and> (k \<noteq> [] \<and> environmentId ctx \<noteq> [] \<longrightarrow>
      createMapiClient pkg env (Some ctx) None (Some k) =
        Inr (clientFor pkg k (environmentId ctx)))
   \<and> (k \<noteq> [] \<and> env ''KONTENT_ENVIRONMENT_ID'' = Some e \<and> e \<noteq> [] \<longrightarrow>
      createMapiClient pkg env None None (Some k) = Inr (clientFor pkg k e))
   \<and> (e \<noteq> [] \<and> apiKey ctx \<noteq> [] \<longrightarrow>
      createMapiClient pkg env (Some ctx) (Some e) None =
        Inr (clientFor pkg (apiKey ctx) e))
   \<and> (e \<noteq> [] \<and> env ''KONTENT_API_KEY'' = Some k \<and> k \<noteq> [] \<longrightarrow>
      createMapiClient pkg env None (Some e) None = Inr (clientFor pkg k e))
   \<and> createMapiClient pkg env (Some (ctx\<lparr>apiKey := otherKey\<rparr>)) eo (Some k') =
       createMapiClient pkg env (Some ctx) eo (Some k')
   \<and> createMapiClient pkg (env(''KONTENT_API_KEY'' := v)) None eo (Some k') =
       createMapiClient pkg env None eo (Some k')
   \<and> createMapiClient pkg env (Some (ctx\<lparr>environmentId := otherId\<rparr>)) (Some e') ko =
       createMapiClient pkg env (Some ctx) (Some e') ko
   \<and> createMapiClient pkg (env(''KONTENT_ENVIRONMENT_ID'' := v)) None (Some e') ko =
       createMapiClient pkg env None (Some e') ko"
proof -
  have both: "createMapiClient pkg env st (Some e) (Some k) = Inr (clientFor pkg k e)"
    if "k \<noteq> []" and "e \<noteq> []"
  proof (cases st)
    case None
    with that show ?thesis by (simp add: createMapiClient_unbound)
  next
    case (Some c)
    with that show ?thesis by (simp add: createMapiClient_bound)
  qed
  show ?thesis
    by (intro conjI impI)
      (simp_all add: both createMapiClient_bound createMapiClient_unbound
        split: option.splits)
qed

theorem createMapiClient_overrides_witness:
  "createMapiClient \<lparr>name = ''mcp-server'', version = ''1.0.0''\<rparr>
      [''KONTENT_API_KEY'' \<mapsto> ''envKey'', ''KONTENT_ENVIRONMENT_ID'' \<mapsto> ''envId'']
      (Some \<lparr>apiKey = ''x'', environmentId = ''y''\<rparr>) (Some ''e'') (Some ''k'') =
     Inr (clientFor \<lparr>name = ''mcp-server'', version = ''1.0.0''\<rparr> ''k'' ''e'')
   \<and> createMapiClient \<lparr>name = ''mcp-server'', version = ''1.0.0''\<rparr>
      [''KONTENT_API_KEY'' \<mapsto> ''envKey'', ''KONTENT_ENVIRONMENT_ID'' \<mapsto> ''envId'']
      (Some \<lparr>apiKey = ''x'', environmentId = ''y''\<rparr>) None (Some ''k'') =
     Inr (clientFor \<lparr>name = ''mcp-server'', version = ''1.0.0''\<rparr> ''k'' ''y'')
   \<and> createMapiClient \<lparr>name = ''mcp-server'', version = ''1.0.0''\<rparr>
      [''KONTENT_API_KEY'' \<mapsto> ''envKey'', ''KONTENT_ENVIRONMENT_ID'' \<mapsto> ''envId'']
      None None (Some ''k'') =
     Inr (clientFor \<lparr>name = ''mcp-server'', version = ''1.0.0''\<rparr> ''k'' ''envId'')
   \<and> createMapiClient \<lparr>name = ''mcp-server'', version = ''1.0.0''\<rparr>
      [''KONTENT_API_KEY'' \<mapsto> ''envKey'', ''KONTENT_ENVIRONMENT_ID'' \<mapsto> ''envId'']
      (Some \<lparr>apiKey = ''x'', environmentId = ''y''\<rparr>) (Some ''e'') None =
     Inr (clientFor \<lparr>name = ''mcp-server'', version = ''1.0.0''\<rparr> ''x'' ''e'')
   \<and> createMapiClient \<lparr>name = ''mcp-server'', version = ''1.0.0''\<rparr>
      [''KONTENT_API_KEY'' \<mapsto> ''envKey'', ''KONTENT_ENVIRONMENT_ID'' \<mapsto> ''envId'']
      None (Some ''e'') None =
     Inr (clientFor \<lparr>name = ''mcp-server'', version = ''1.0.0''\<rparr> ''envKey'' ''e'')"
  using
    createMapiClient_overrides
      [of "''k''" "''e''" "\<lparr>name = ''mcp-server'', version = ''1.0.0''\<rparr>"
          "[''KONTENT_API_KEY'' \<mapsto> ''envKey'', ''KONTENT_ENVIRONMENT_ID'' \<mapsto> ''envId'']"
          "Some \<lparr>apiKey = ''x'', environmentId = ''y''\<rparr>"
          "\<lparr>apiKey = ''x'', environmentId = ''y''\<rparr>"]
    createMapiClient_overrides
      [of "''k''" "''envId''" "\<lparr>name = ''mcp-server'', version = ''1.0.0''\<rparr>"
          "[''KONTENT_API_KEY'' \<mapsto> ''envKey'', ''KONTENT_ENVIRONMENT_ID'' \<mapsto> ''envId'']"
          "None" "\<lparr>apiKey = ''x'', environmentId = ''y''\<rparr>"]
    createMapiClient_overrides
      [of "''envKey''" "''e''" "\<lparr>name = ''mcp-server'', version = ''1.0.0''\<rparr>"
          "[''KONTENT_API_KEY'' \<mapsto> ''envKey'', ''KONTENT_ENVIRONMENT_ID'' \<mapsto> ''envId'']"
          "None" "\<lparr>apiKey = ''x'', environmentId = ''y''\<rparr>"]
  by simp

text \<open>
  Claim C9, as the code has it. Two calls with no bound context and no arguments, the
  variable \<open>KONTENT_API_KEY\<close> having changed from "first" to "second" between them, build
  clients with different credentials: each call reads the environment it finds.
\<close>

theorem createMapiClient_fallback_counterexample:
  "createMapiClient \<lparr>name = ''mcp-server'', version = ''1.0.0''\<rparr>
      [''KONTENT_API_KEY'' \<mapsto> ''first'', ''KONTENT_ENVIRONMENT_ID'' \<mapsto> ''envId'']
      None None None =
     Inr (clientFor \<lparr>name = ''mcp-server'', version = ''1.0.0''\<rparr> ''first'' ''envId'')
   \<and> createMapiClient \<lparr>name = ''mcp-server'', version = ''1.0.0''\<rparr>
      [''KONTENT_API_KEY'' \<mapsto> ''second'', ''KONTENT_ENVIRONMENT_ID'' \<mapsto> ''envId'']
      None None None =
     Inr (clientFor \<lparr>name = ''mcp-server'', version = ''1.0.0''\<rparr> ''second'' ''envId'')
   \<and> clientFor \<lparr>name = ''mcp-server'', version = ''1.0.0''\<rparr> ''first'' ''envId''
       \<noteq> clientFor \<lparr>name = ''mcp-server'', version = ''1.0.0''\<rparr> ''second'' ''envId''"
  by (simp add: createMapiClient_unbound clientFor_def createManagementClient_def)

text \<open>
  Claim C9, amended. The factory reads the environment at every call. Two calls with no
  bound context and the same arguments give the same result (the same client, built
  from the same fallback credential and namespace, or the same error) whenever
  \<open>KONTENT_API_KEY\<close> and \<open>KONTENT_ENVIRONMENT_ID\<close> have the same values in the environments
  the two calls find; no other variable matters.
\<close>

theorem createMapiClient_fallback_same_variables:
  assumes "env1 ''KONTENT_API_KEY'' = env2 ''KONTENT_API_KEY''"
    and "env1 ''KONTENT_ENVIRONMENT_ID'' = env2 ''KONTENT_ENVIRONMENT_ID''"
  shows "createMapiClient pkg env1 None eo ko = createMapiClient pkg env2 None eo ko"
  unfolding createMapiClient_unbound assms by (rule refl)

theorem createMapiClient_fallback_same_variables_witness:
  "createMapiClient \<lparr>name = ''mcp-server'', version = ''1.0.0''\<rparr>
      [''KONTENT_API_KEY'' \<mapsto> ''envKey'', ''KONTENT_ENVIRONMENT_ID'' \<mapsto> ''envId'',
       ''PORT'' \<mapsto> ''3001'']
      None None None =
   createMapiClient \<lparr>name = ''mcp-server'', version = ''1.0.0''\<rparr>
      [''KONTENT_API_KEY'' \<mapsto> ''envKey'', ''KONTENT_ENVIRONMENT_ID'' \<mapsto> ''envId'']
      None None None"
  using createMapiClient_fallback_same_variables
    [of "[''KONTENT_API_KEY'' \<mapsto> ''envKey'', ''KONTENT_ENVIRONMENT_ID'' \<mapsto> ''envId'',
          ''PORT'' \<mapsto> ''3001'']"
        "[''KONTENT_API_KEY'' \<mapsto> ''envKey'', ''KONTENT_ENVIRONMENT_ID'' \<mapsto> ''envId'']"
        "\<lparr>name = ''mcp-server'', version = ''1.0.0''\<rparr>" None None]
  by simp

text \<open>
  Claim C10. An empty-string override is not treated as absent. With the empty string as
  the credential argument the factory throws the API-key error in every store and
  environment, so also inside a bound extent whose credential is valid. With the empty
  string as the namespace argument the factory always throws; inside a bound extent and
  with no credential argument, the error is the environment-id one when the bound
  credential is non-empty.
\<close>

theorem createMapiClient_empty_override:
  "createMapiClient pkg env st eo (Some []) =
     Inl (Error ''API key not provided (neither in context nor environment)'')
   \<and> isl (createMapiClient pkg env st (Some []) ko)
   \<and> createMapiClient pkg env (Some ctx) (Some []) None =
     Inl (Error (if apiKey ctx = []
                 then ''API key not provided (neither in context nor environment)''
                 else ''Environment ID not provided (neither in context nor environment)''))"
proof (intro conjI)
  show "createMapiClient pkg env st eo (Some []) =
      Inl (Error ''API key not provided (neither in context nor environment)'')"
    by (cases st) (simp_all add: createMapiClient_bound createMapiClient_unbound)
next
  show "isl (createMapiClient pkg env st (Some []) ko)"
    by (cases st) (simp_all add: createMapiClient_bound createMapiClient_unbound Let_def)
next
  show "createMapiClient pkg env (Some ctx) (Some []) None =
      Inl (Error (if apiKey ctx = []
                  then ''API key not provided (neither in context nor environment)''
                  else ''Environment ID not provided (neither in context nor environment)''))"
    by (simp add: createMapiClient_bound)
qed

end
